theory Spec2Isabelle
  imports Main
begin

section \<open>Strings\<close>

text \<open>
  A Python \<open>str\<close> is a sequence of Unicode code points, so it is modelled as a list of
  natural numbers. The Amharic literals of \<open>app.py\<close> are written out code point by code
  point; ASCII runs are written as HOL string literals and converted by \<open>ascii\<close>.
\<close>

type_synonym pystr = "nat list"

definition ascii :: "string \<Rightarrow> pystr" where
  "ascii s = map of_char s"

text \<open>Truthiness of a value that is \<open>None\<close> or a \<open>str\<close> (\<open>os.environ.get\<close>).\<close>

definition truthy :: "pystr option \<Rightarrow> bool" where
  "truthy v = (case v of None \<Rightarrow> False | Some s \<Rightarrow> s \<noteq> [])"

section \<open>Constants of \<open>app.py\<close>\<close>

definition LANG_AMHARIC :: pystr where
  "LANG_AMHARIC = ascii ''AM''"

definition LANG_ENGLISH :: pystr where
  "LANG_ENGLISH = ascii ''EN''"

definition ACTION_ABOUT :: pystr where
  "ACTION_ABOUT = ascii ''ABOUT_CH''"

definition MAX_RETRIES :: nat where
  "MAX_RETRIES = 3"

text \<open>The key of the session dictionary (lines 107 and 122).\<close>

definition LANG_KEY :: pystr where
  "LANG_KEY = ascii ''lang''"

subsection \<open>The string literals, in the order of the source\<close>

text \<open>
  The literals are inline in the source; the names are given here. Lines 58, 69, 77, 85
  and 86 are the five return values of \<open>generate_response_with_retry\<close>; lines 91 to 96
  belong to \<open>start\<close>; lines 104 to 126 to \<open>handle_callback\<close>. The two welcome messages
  are f-strings: each is split into the text before and after \<open>{user_name}\<close>.
\<close>

definition MSG_NO_API_KEY :: pystr where
  "MSG_NO_API_KEY =
     [0x26A0, 0xFE0F, 0x20, 0x12ED, 0x1245, 0x122D, 0x1273, 0x1363, 0x20, 0x12E8, 0x1266,
     0x1271, 0x20, 0x1241, 0x120D, 0x134D] @ ascii '' (API Key) '' @ [0x12A0, 0x120D,
     0x1270, 0x12D8, 0x130B, 0x1300, 0x121D, 0x1362, 0x20, 0x12A5, 0x1263, 0x12AD, 0x12CE,
     0x20, 0x12E8, 0x12A0, 0x1308, 0x120D, 0x130D, 0x120E, 0x1275, 0x20, 0x1241, 0x120D,
     0x1349, 0x1295, 0x20, 0x1260, 0x1275, 0x12AD, 0x12AD, 0x120D, 0x20, 0x12EB, 0x12D8,
     0x130B, 0x1301, 0x1362]"

definition MSG_DAILY_LIMIT :: pystr where
  "MSG_DAILY_LIMIT =
     [0x12ED, 0x1245, 0x122D, 0x1273, 0x1363, 0x20, 0x12E8, 0x1266, 0x1271, 0x20, 0x12E8,
     0x12D5, 0x1208, 0x1273, 0x12CA, 0x20, 0x12E8, 0x12A0, 0x1320, 0x1243, 0x1240, 0x121D,
     0x20, 0x1308, 0x12F0, 0x1265, 0x20, 0x1235, 0x1208, 0x1270, 0x121F, 0x120B, 0x20,
     0x121D, 0x120B, 0x123D, 0x20, 0x1218, 0x1235, 0x1320, 0x1275, 0x20, 0x12A0, 0x120D,
     0x127B, 0x120D, 0x12A9, 0x121D, 0x1362]"

definition MSG_API_ERROR :: pystr where
  "MSG_API_ERROR =
     [0x12ED, 0x1245, 0x122D, 0x1273, 0x1363, 0x20, 0x1260, 0x1274, 0x12AD, 0x1292, 0x12AB,
     0x12CA, 0x20, 0x127D, 0x130D, 0x122D, 0x20, 0x121D, 0x12AD, 0x1295, 0x12EB, 0x1275,
     0x20, 0x121D, 0x120B, 0x123D, 0x20, 0x1218, 0x1235, 0x1320, 0x1275, 0x20, 0x12A0,
     0x120D, 0x127B, 0x120D, 0x12A9, 0x121D, 0x1362]"

definition MSG_UNEXPECTED_ERROR :: pystr where
  "MSG_UNEXPECTED_ERROR =
     [0x12ED, 0x1245, 0x122D, 0x1273, 0x1363, 0x20, 0x12EB, 0x120D, 0x1273, 0x12C8, 0x1240,
     0x20, 0x130D, 0x1295, 0x1299, 0x1290, 0x1275, 0x20, 0x1218, 0x124B, 0x1228, 0x1325,
     0x20, 0x12A0, 0x130B, 0x1325, 0x121F, 0x120D, 0x1362]"

definition MSG_ALL_FAILED :: pystr where
  "MSG_ALL_FAILED =
     [0x12ED, 0x1245, 0x122D, 0x1273, 0x1363, 0x20, 0x12E8, 0x1218, 0x120D, 0x1235, 0x20,
     0x1219, 0x12A8, 0x122B, 0x12CD, 0x20, 0x1201, 0x1209, 0x20, 0x12A0, 0x120D, 0x1270,
     0x1233, 0x12AB, 0x121D, 0x1362]"

definition BTN_AMHARIC :: pystr where
  "BTN_AMHARIC =
     [0x12A0, 0x121B, 0x122D, 0x129B] @ ascii '' (Amharic)''"

definition BTN_ENGLISH :: pystr where
  "BTN_ENGLISH =
     ascii ''English (English)''"

definition MSG_SELECT_LANGUAGE :: pystr where
  "MSG_SELECT_LANGUAGE =
     [0x12A5, 0x1263, 0x12AD, 0x12CE, 0x20, 0x12E8, 0x121A, 0x1320, 0x1240, 0x1219, 0x1260,
     0x1275, 0x1295, 0x20, 0x124B, 0x1295, 0x124B, 0x20, 0x12ED, 0x121D, 0x1228, 0x1321,
     0x1362, 0xA] @ ascii ''Please select your preferred language.''"

definition DEFAULT_USER_NAME :: pystr where
  "DEFAULT_USER_NAME =
     [0x130C, 0x1273, 0x12EC]"

definition WELCOME_AM_PRE :: pystr where
  "WELCOME_AM_PRE =
     [0x1230, 0x120B, 0x121D, 0x20, 0x1F44B, 0x20]"

definition WELCOME_AM_POST :: pystr where
  "WELCOME_AM_POST =
     [0x1363, 0x20, 0x12A5, 0x1295, 0x12B3, 0x1295, 0x20, 0x12C8, 0x12F0] @
     ascii '' Tabor Systems Ai '' @ [0x1260, 0x12F0, 0x1285, 0x1293, 0x20, 0x1218, 0x1321,
     0x1362, 0xA, 0xA, 0x12A0, 0x1201, 0x1295, 0x20, 0x121B, 0x1295, 0x129B, 0x12CD, 0x1295,
     0x121D, 0x20, 0x12A0, 0x12ED, 0x1290, 0x1275, 0x20, 0x1325, 0x12EB, 0x1244, 0x20,
     0x1218, 0x1320, 0x12E8, 0x1245, 0x20, 0x12ED, 0x127D, 0x120B, 0x1209, 0x1362]"

definition WELCOME_EN_PRE :: pystr where
  "WELCOME_EN_PRE =
     ascii ''Hello '' @ [0x1F44B, 0x20]"

definition WELCOME_EN_POST :: pystr where
  "WELCOME_EN_POST =
     ascii '', welcome to Tabor Systems AI.'' @ [0xA, 0xA] @
     ascii ''You can now ask me any question.''"

definition BTN_ABOUT_AM :: pystr where
  "BTN_ABOUT_AM =
     [0x2139, 0xFE0F, 0x20, 0x1235, 0x1208, 0x20, 0x127B, 0x1293, 0x1209]"

definition BTN_ABOUT_EN :: pystr where
  "BTN_ABOUT_EN =
     [0x2139, 0xFE0F] @ ascii '' About Channel''"

definition ABOUT_TEXT_AM :: pystr where
  "ABOUT_TEXT_AM =
     [0x12E8] @ ascii ''Tabor Systems '' @ [0x127B, 0x1293, 0x120D, 0x20, 0x1260, 0x12CB,
     0x1293, 0x1290, 0x1275, 0x20, 0x12E8, 0x121A, 0x12EB, 0x1270, 0x12A9, 0x1228, 0x12CD,
     0x20, 0x1260] @ ascii '' IT Support & Networking'' @ [0x1363] @
     ascii '' Fullstack Web Development '' @ [0x12A5, 0x1293] @
     ascii '' Database Administration '' @ [0x120B, 0x12ED, 0x20, 0x1290, 0x12CD, 0x1362,
     0x20, 0x1270, 0x1308, 0x1295, 0x1262, 0x1361] @ ascii '' Tabor Systems''"

definition ABOUT_TEXT_EN :: pystr where
  "ABOUT_TEXT_EN =
     ascii ''Tabor Systems Channel focuses on IT Support & Networking, '' @
     ascii ''Fullstack Web Development, and Database Administration. '' @
     ascii ''Built by: Tabor Systems''"

section \<open>Configuration\<close>

text \<open>
  Lines 14 to 51: the two credentials read from the environment, and whether the
  \<open>try\<close> block of lines 42 to 47 ran to its end. The global \<open>model\<close> is assigned only
  inside that block, so it is bound exactly when the key is truthy and the block did not
  raise.
\<close>

record config =
  TELEGRAM_TOKEN :: "pystr option"
  GENAI_API_KEY :: "pystr option"
  genai_configure_ok :: bool

definition model_bound :: "config \<Rightarrow> bool" where
  "model_bound cfg = (truthy (GENAI_API_KEY cfg) \<and> genai_configure_ok cfg)"

section \<open>The language-model provider\<close>

text \<open>
  The exception classes that the \<open>except\<close> clauses of lines 67 to 85 tell apart.
  \<open>OtherException\<close> stands for every other subclass of \<open>Exception\<close> (among them the
  \<open>NameError\<close> of an unbound \<open>model\<close> and the \<open>Exception\<close> of line 64). Conditions
  outside the \<open>Exception\<close> hierarchy (interpreter exit, keyboard interrupt) are not part
  of the model.
\<close>

datatype exn = ResourceExhaustedError | APIError | OtherException

text \<open>
  The provider is a black box: \<open>gemini k prompt\<close> is what the call
  \<open>model.generate_content(prompt)\<close> does when \<open>k\<close> calls have been made before it, either
  raising (\<open>Inl\<close>) or returning a response whose \<open>.text\<close> is the string (\<open>Inr\<close>).
\<close>

type_synonym provider = "nat \<Rightarrow> pystr \<Rightarrow> exn + pystr"

section \<open>Telegram data and the observable state\<close>

text \<open>An inline keyboard: rows of buttons, each a label and its \<open>callback_data\<close>.\<close>

type_synonym keyboard = "(pystr \<times> pystr) list list"

record message =
  msg_chat_id :: int
  msg_user_id :: int
  msg_text :: pystr

record callback_query =
  cq_id :: int
  cq_user_id :: int
  cq_first_name :: pystr
  cq_data :: "pystr option"
  cq_chat_id :: int

text \<open>
  The outbound calls to the chat platform, as the handlers make them:
  \<open>query.answer()\<close>, \<open>query.edit_message_text(text, reply_markup)\<close>,
  \<open>context.bot.send_message(chat_id, text)\<close>, \<open>update.message.reply_text(text,
  reply_markup)\<close> and \<open>context.bot.send_chat_action(chat_id, action)\<close>. They are recorded
  in order and are taken to succeed.
\<close>

datatype bot_call =
    AnswerCallbackQuery int
  | EditMessageText int pystr keyboard
  | SendMessage int pystr
  | ReplyText int pystr "keyboard option"
  | SendChatAction int pystr

text \<open>
  Everything a handler can change or emit: the per-user session dictionaries
  (\<open>context.user_data\<close>), the outbound calls, the prompts passed to the model, and the
  arguments of \<open>time.sleep\<close>.
\<close>

record world =
  user_data :: "int \<Rightarrow> pystr \<rightharpoonup> pystr"
  outbox :: "bot_call list"
  model_calls :: "pystr list"
  sleeps :: "nat list"

definition time_sleep :: "nat \<Rightarrow> world \<Rightarrow> world" where
  "time_sleep secs w = w\<lparr>sleeps := sleeps w @ [secs]\<rparr>"

definition emit :: "bot_call \<Rightarrow> world \<Rightarrow> world" where
  "emit c w = w\<lparr>outbox := outbox w @ [c]\<rparr>"

section \<open>Completion client: \<open>generate_response_with_retry\<close>\<close>

text \<open>
  Lines 62 to 65, the body of the \<open>try\<close>: evaluating the unbound name \<open>model\<close> raises
  before any call is made; otherwise the call is made and recorded, and an empty
  \<open>response.text\<close> raises \<open>Exception("Received empty response")\<close>.
\<close>

definition try_generate :: "config \<Rightarrow> provider \<Rightarrow> pystr \<Rightarrow> world \<Rightarrow> (exn + pystr) \<times> world" where
  "try_generate cfg gemini prompt w =
     (if \<not> model_bound cfg then (Inl OtherException, w)
      else
        let w' = w\<lparr>model_calls := model_calls w @ [prompt]\<rparr> in
        (case gemini (length (model_calls w)) prompt of
           Inl e \<Rightarrow> (Inl e, w')
         | Inr response_text \<Rightarrow>
             if response_text = [] then (Inl OtherException, w')
             else (Inr response_text, w')))"

text \<open>
  One iteration of the loop of line 60, with the \<open>except\<close> clauses in the order of the
  source. \<open>Some r\<close> is \<open>return r\<close>; \<open>None\<close> is falling through to the next iteration.
\<close>

definition attempt_once :: "config \<Rightarrow> provider \<Rightarrow> pystr \<Rightarrow> nat \<Rightarrow> world \<Rightarrow> pystr option \<times> world" where
  "attempt_once cfg gemini prompt attempt w =
     (case try_generate cfg gemini prompt w of
        (Inr response_text, w') \<Rightarrow> (Some response_text, w')
      | (Inl ResourceExhaustedError, w') \<Rightarrow> (Some MSG_DAILY_LIMIT, w')
      | (Inl APIError, w') \<Rightarrow>
          if attempt < MAX_RETRIES - 1 then (None, time_sleep (2 ^ attempt) w')
          else (Some MSG_API_ERROR, w')
      | (Inl OtherException, w') \<Rightarrow>
          if attempt < MAX_RETRIES - 1 then (None, time_sleep (2 ^ attempt) w')
          else (Some MSG_UNEXPECTED_ERROR, w'))"

text \<open>The \<open>for\<close> loop over a range, and the \<open>return\<close> of line 86 after it.\<close>

fun retry_loop :: "config \<Rightarrow> provider \<Rightarrow> pystr \<Rightarrow> nat list \<Rightarrow> world \<Rightarrow> pystr \<times> world" where
  "retry_loop cfg gemini prompt [] w = (MSG_ALL_FAILED, w)"
| "retry_loop cfg gemini prompt (attempt # rest) w =
     (case attempt_once cfg gemini prompt attempt w of
        (Some r, w') \<Rightarrow> (r, w')
      | (None, w') \<Rightarrow> retry_loop cfg gemini prompt rest w')"

definition generate_response_with_retry :: "config \<Rightarrow> provider \<Rightarrow> pystr \<Rightarrow> world \<Rightarrow> pystr \<times> world" where
  "generate_response_with_retry cfg gemini prompt w =
     (if \<not> truthy (GENAI_API_KEY cfg) then (MSG_NO_API_KEY, w)
      else retry_loop cfg gemini prompt [0..<MAX_RETRIES] w)"

subsection \<open>Outcomes that count as the same failure\<close>

text \<open>
  Two outcomes of a model call are alike for the retry logic when they are equal, or when
  each is an empty text or a generic exception.
\<close>

definition empty_or_generic :: "exn + pystr \<Rightarrow> bool" where
  "empty_or_generic r = (r = Inr [] \<or> r = Inl OtherException)"

definition alike_for_retry :: "exn + pystr \<Rightarrow> exn + pystr \<Rightarrow> bool" where
  "alike_for_retry a b = (a = b \<or> (empty_or_generic a \<and> empty_or_generic b))"

text \<open>The outcomes of the \<open>try\<close> block that the loop retries: every failure but the quota.\<close>

definition non_quota_failure :: "exn + pystr \<Rightarrow> bool" where
  "non_quota_failure r = (r = Inl APIError \<or> r = Inl OtherException)"

section \<open>Conversation handlers\<close>

text \<open>\<open>d.get(k, dflt)\<close> and \<open>context.user_data[k] = v\<close> for the user of the update.\<close>

definition dict_get :: "('k \<rightharpoonup> 'v) \<Rightarrow> 'k \<Rightarrow> 'v \<Rightarrow> 'v" where
  "dict_get d k dflt = (case d k of None \<Rightarrow> dflt | Some v \<Rightarrow> v)"

definition set_user_data :: "int \<Rightarrow> pystr \<Rightarrow> pystr \<Rightarrow> world \<Rightarrow> world" where
  "set_user_data uid k v w = w\<lparr>user_data := (user_data w)(uid := (user_data w uid)(k \<mapsto> v))\<rparr>"

text \<open>Lines 89 to 98.\<close>

definition start :: "message \<Rightarrow> world \<Rightarrow> world" where
  "start msg w =
     (let keyboard = [[(BTN_AMHARIC, LANG_AMHARIC)], [(BTN_ENGLISH, LANG_ENGLISH)]]
      in emit (ReplyText (msg_chat_id msg) MSG_SELECT_LANGUAGE (Some keyboard)) w)"

text \<open>
  Lines 100 to 127. A callback query without data has \<open>query.data = None\<close>, which is
  neither in the list of line 106 nor equal to \<open>ACTION_ABOUT\<close>.
\<close>

definition handle_callback :: "callback_query \<Rightarrow> world \<Rightarrow> world" where
  "handle_callback query w =
     (let w1 = emit (AnswerCallbackQuery (cq_id query)) w;
          user_name = (if cq_first_name query \<noteq> [] then cq_first_name query
                       else DEFAULT_USER_NAME)
      in case cq_data query of
           None \<Rightarrow> w1
         | Some data \<Rightarrow>
             if data \<in> set [LANG_AMHARIC, LANG_ENGLISH] then
               let w2 = set_user_data (cq_user_id query) LANG_KEY data w1;
                   (main_message, about_btn_text) =
                     (if data = LANG_AMHARIC
                      then (WELCOME_AM_PRE @ user_name @ WELCOME_AM_POST, BTN_ABOUT_AM)
                      else (WELCOME_EN_PRE @ user_name @ WELCOME_EN_POST, BTN_ABOUT_EN));
                   main_keyboard = [[(about_btn_text, ACTION_ABOUT)]]
               in emit (EditMessageText (cq_chat_id query) main_message main_keyboard) w2
             else if data = ACTION_ABOUT then
               let lang = dict_get (user_data w1 (cq_user_id query)) LANG_KEY LANG_AMHARIC;
                   about_text = (if lang = LANG_AMHARIC then ABOUT_TEXT_AM else ABOUT_TEXT_EN)
               in emit (SendMessage (cq_chat_id query) about_text) w1
             else w1)"

text \<open>Lines 130 to 136.\<close>

definition handle_message :: "config \<Rightarrow> provider \<Rightarrow> message \<Rightarrow> world \<Rightarrow> world" where
  "handle_message cfg gemini msg w =
     (let user_text = msg_text msg;
          chat_id = msg_chat_id msg;
          w1 = emit (SendChatAction chat_id (ascii ''typing'')) w;
          (response_text, w2) = generate_response_with_retry cfg gemini user_text w1
      in emit (ReplyText chat_id response_text None) w2)"

section \<open>Dispatch\<close>

text \<open>
  An update, classified the way the three handlers registered in lines 147 to 149 select
  it: a message that is the command \<open>c\<close> (\<open>CommandHandler\<close>), a callback query
  (\<open>CallbackQueryHandler\<close>), a text message that is not a command (\<open>filters.TEXT &
  (~filters.COMMAND)\<close>), or an update that none of them selects.
\<close>

datatype update =
    Command pystr message
  | Callback callback_query
  | TextMessage message
  | Unhandled

fun process_update :: "config \<Rightarrow> provider \<Rightarrow> update \<Rightarrow> world \<Rightarrow> world" where
  "process_update cfg gemini (Command c msg) w = (if c = ascii ''start'' then start msg w else w)"
| "process_update cfg gemini (Callback query) w = handle_callback query w"
| "process_update cfg gemini (TextMessage msg) w = handle_message cfg gemini msg w"
| "process_update cfg gemini Unhandled w = w"

text \<open>A sequence of updates, handled one after the other.\<close>

definition process_updates :: "config \<Rightarrow> provider \<Rightarrow> update list \<Rightarrow> world \<Rightarrow> world" where
  "process_updates cfg gemini updates w = fold (process_update cfg gemini) updates w"

section \<open>The webhook\<close>

text \<open>
  The body of a request, by what the two decoders of line 181 make of it.
  \<open>request.get_json(force=True)\<close> raises \<open>BadRequest\<close> on a body that is not JSON (there
  is no \<open>silent=True\<close>); \<open>Update.de_json\<close> either raises on the parsed value or yields an
  update (\<open>Unhandled\<close> when it yields \<open>None\<close>, which no handler selects).
\<close>

datatype payload = Rejected | Decodes update

datatype body = NotJSON | JSON payload

text \<open>
  What can leave the view: the \<open>BadRequest\<close> of \<open>get_json\<close>, whatever \<open>de_json\<close> raises, and
  the \<open>TypeError\<close> of awaiting a value that is not awaitable.
\<close>

datatype view_exn = BadRequest | DecodeError | TypeError

record request =
  req_method :: pystr
  req_body :: body

definition get_json :: "body \<Rightarrow> view_exn + payload" where
  "get_json b = (case b of NotJSON \<Rightarrow> Inl BadRequest | JSON p \<Rightarrow> Inr p)"

definition de_json :: "payload \<Rightarrow> view_exn + update" where
  "de_json p = (case p of Rejected \<Rightarrow> Inl DecodeError | Decodes u \<Rightarrow> Inr u)"

text \<open>Lines 141 to 144: the dispatcher exists exactly when the bot token is truthy.\<close>

definition dispatcher_set :: "config \<Rightarrow> bool" where
  "dispatcher_set cfg = truthy (TELEGRAM_TOKEN cfg)"

text \<open>
  Line 182. The dispatcher of line 144 is a \<open>telegram.ext.Dispatcher\<close>, whose
  \<open>process_update\<close> is a plain method: the call runs the dispatch and returns \<open>None\<close>, and
  \<open>await\<close> applied to \<open>None\<close> raises \<open>TypeError\<close>. So the statement never completes
  normally: it yields the exception and the state the dispatch left.
\<close>

definition await_process_update :: "config \<Rightarrow> provider \<Rightarrow> update \<Rightarrow> world \<Rightarrow> (view_exn + unit) \<times> world" where
  "await_process_update cfg gemini update w = (Inl TypeError, process_update cfg gemini update w)"

text \<open>
  Lines 176 to 183. The view has no \<open>try\<close>: what a decoder or the \<open>await\<close> raises leaves
  the view, and \<open>return 'ok'\<close> is reached only on the paths that raise nothing.
\<close>

definition webhook :: "config \<Rightarrow> provider \<Rightarrow> request \<Rightarrow> world \<Rightarrow> (view_exn + pystr) \<times> world" where
  "webhook cfg gemini req w =
     (if req_method req = ascii ''POST'' then
        if dispatcher_set cfg then
          (case get_json (req_body req) of
             Inl e \<Rightarrow> (Inl e, w)
           | Inr p \<Rightarrow>
               (case de_json p of
                  Inl e \<Rightarrow> (Inl e, w)
                | Inr update \<Rightarrow>
                    (case await_process_update cfg gemini update w of
                       (Inl e, w') \<Rightarrow> (Inl e, w')
                     | (Inr u, w') \<Rightarrow> (Inr (ascii ''ok''), w'))))
        else (Inr (ascii ''ok''), w)
      else (Inr (ascii ''ok''), w))"

text \<open>
  What the web framework answers: a returned string is a 200 response with that body, a
  raised \<open>BadRequest\<close> is a 400 response, any other exception a 500 response.
\<close>

datatype http_response = Body nat pystr | ErrorPage nat

definition respond :: "view_exn + pystr \<Rightarrow> http_response" where
  "respond r = (case r of Inr s \<Rightarrow> Body 200 s | Inl BadRequest \<Rightarrow> ErrorPage 400
                | Inl DecodeError \<Rightarrow> ErrorPage 500 | Inl TypeError \<Rightarrow> ErrorPage 500)"

definition post_telegram :: "config \<Rightarrow> provider \<Rightarrow> body \<Rightarrow> world \<Rightarrow> http_response" where
  "post_telegram cfg gemini b w =
     respond (fst (webhook cfg gemini \<lparr>req_method = ascii ''POST'', req_body = b\<rparr> w))"

section \<open>Concrete inputs\<close>

text \<open>
  A configuration with both credentials and a bound \<open>model\<close>, one without the API key,
  the state of a freshly started process, and providers that answer every call alike.
\<close>

definition cfg_ok :: config where
  "cfg_ok = \<lparr>TELEGRAM_TOKEN = Some (ascii ''123:abc''), GENAI_API_KEY = Some (ascii ''key''),
     genai_configure_ok = True\<rparr>"

definition cfg_no_key :: config where
  "cfg_no_key = \<lparr>TELEGRAM_TOKEN = Some (ascii ''123:abc''), GENAI_API_KEY = None,
     genai_configure_ok = False\<rparr>"

definition world0 :: world where
  "world0 = \<lparr>user_data = (\<lambda>uid. Map.empty), outbox = [], model_calls = [], sleeps = []\<rparr>"

definition always :: "exn + pystr \<Rightarrow> provider" where
  "always r k prompt = r"

definition hello :: pystr where
  "hello = ascii ''hello''"

text \<open>A user, a callback query of that user with given data, and a message.\<close>

definition tap :: "pystr option \<Rightarrow> callback_query" where
  "tap d = \<lparr>cq_id = 1, cq_user_id = 7, cq_first_name = ascii ''Abebe'', cq_data = d,
     cq_chat_id = 42\<rparr>"

definition msg0 :: message where
  "msg0 = \<lparr>msg_chat_id = 42, msg_user_id = 7, msg_text = ascii ''/start''\<rparr>"

definition cfg_no_token :: config where
  "cfg_no_token = \<lparr>TELEGRAM_TOKEN = None, GENAI_API_KEY = Some (ascii ''key''),
     genai_configure_ok = True\<rparr>"

text \<open>A provider whose first \<open>n\<close> calls raise the API error and whose later calls answer.\<close>

definition failing_first :: "nat \<Rightarrow> provider" where
  "failing_first n k prompt = (if k < n then Inl APIError else Inr (ascii ''hi''))"

section \<open>Properties of the completion client\<close>

lemma range_MAX_RETRIES: "[0..<MAX_RETRIES] = [0, 1, 2]"
  by (simp add: MAX_RETRIES_def upt_rec)

lemma fixed_replies_nonempty:
  "MSG_NO_API_KEY \<noteq> []" "MSG_DAILY_LIMIT \<noteq> []" "MSG_API_ERROR \<noteq> []"
  "MSG_UNEXPECTED_ERROR \<noteq> []" "MSG_ALL_FAILED \<noteq> []"
  by (simp_all add: MSG_NO_API_KEY_def MSG_DAILY_LIMIT_def MSG_API_ERROR_def
      MSG_UNEXPECTED_ERROR_def MSG_ALL_FAILED_def)

lemma try_generate_text_nonempty:
  "try_generate cfg gemini prompt w = (Inr t, w') \<Longrightarrow> t \<noteq> []"
  by (auto simp: try_generate_def Let_def split: if_splits sum.splits)

lemma attempt_once_nonempty:
  assumes "attempt_once cfg gemini prompt attempt w = (Some r, w')"
  shows "r \<noteq> []"
proof (cases "try_generate cfg gemini prompt w")
  case (Pair res w1)
  show ?thesis
  proof (cases res)
    case (Inl e)
    with Pair assms show ?thesis
      by (cases e) (auto simp: attempt_once_def fixed_replies_nonempty split: if_splits)
  next
    case (Inr t)
    with Pair have "t \<noteq> []" by (simp add: try_generate_text_nonempty)
    with Pair Inr assms show ?thesis by (simp add: attempt_once_def)
  qed
qed

lemma retry_loop_nonempty: "fst (retry_loop cfg gemini prompt attempts w) \<noteq> []"
proof (induction attempts arbitrary: w)
  case Nil
  show ?case by (simp add: fixed_replies_nonempty)
next
  case (Cons attempt rest)
  obtain res w' where step: "attempt_once cfg gemini prompt attempt w = (res, w')"
    by (cases "attempt_once cfg gemini prompt attempt w")
  show ?case
  proof (cases res)
    case None
    with step Cons.IH [of w'] show ?thesis by simp
  next
    case (Some r)
    with step have "r \<noteq> []" by (simp add: attempt_once_nonempty)
    with step Some show ?thesis by simp
  qed
qed

lemma generate_with_key:
  "truthy (GENAI_API_KEY cfg) \<Longrightarrow>
   generate_response_with_retry cfg gemini prompt w = retry_loop cfg gemini prompt [0, 1, 2] w"
  by (simp add: generate_response_with_retry_def range_MAX_RETRIES)

lemma try_generate_bound:
  "model_bound cfg \<Longrightarrow> gemini (length (model_calls w)) prompt = Inl e \<Longrightarrow>
   try_generate cfg gemini prompt w = (Inl e, w\<lparr>model_calls := model_calls w @ [prompt]\<rparr>)"
  by (simp add: try_generate_def)

lemma try_generate_alike:
  assumes "alike_for_retry (g1 (length (model_calls w)) prompt) (g2 (length (model_calls w)) prompt)"
  shows "try_generate cfg g1 prompt w = try_generate cfg g2 prompt w"
  using assms
  by (auto simp: try_generate_def alike_for_retry_def empty_or_generic_def Let_def)

lemma attempt_once_alike:
  assumes "alike_for_retry (g1 (length (model_calls w)) prompt) (g2 (length (model_calls w)) prompt)"
  shows "attempt_once cfg g1 prompt attempt w = attempt_once cfg g2 prompt attempt w"
proof -
  have "try_generate cfg g1 prompt w = try_generate cfg g2 prompt w"
    using assms by (rule try_generate_alike)
  then show ?thesis by (simp add: attempt_once_def)
qed

lemma retry_loop_alike:
  assumes "\<forall>k. alike_for_retry (g1 k prompt) (g2 k prompt)"
  shows "retry_loop cfg g1 prompt attempts w = retry_loop cfg g2 prompt attempts w"
proof (induction attempts arbitrary: w)
  case Nil
  show ?case by simp
next
  case (Cons attempt rest)
  have "attempt_once cfg g1 prompt attempt w = attempt_once cfg g2 prompt attempt w"
    using assms by (simp add: attempt_once_alike)
  with Cons.IH show ?case by (simp split: prod.splits option.splits)
qed

lemma try_generate_sleeps: "sleeps (snd (try_generate cfg gemini prompt w)) = sleeps w"
  by (simp add: try_generate_def Let_def split: sum.splits)

lemma attempt_once_retries:
  assumes "non_quota_failure (fst (try_generate cfg gemini prompt v))" and "attempt < 2"
  shows "attempt_once cfg gemini prompt attempt v
           = (None, time_sleep (2 ^ attempt) (snd (try_generate cfg gemini prompt v)))"
proof (cases "try_generate cfg gemini prompt v")
  case (Pair r v1)
  with assms(1) have "r = Inl APIError \<or> r = Inl OtherException"
    by (simp add: non_quota_failure_def)
  with Pair assms(2) show ?thesis
    by (auto simp: attempt_once_def MAX_RETRIES_def)
qed

lemma attempt_once_last:
  assumes "\<not> attempt < 2"
  shows "\<exists>r. attempt_once cfg gemini prompt attempt v
               = (Some r, snd (try_generate cfg gemini prompt v))"
proof (cases "try_generate cfg gemini prompt v")
  case (Pair r v1)
  show ?thesis
  proof (cases r)
    case (Inl e)
    with Pair assms show ?thesis
      by (cases e) (simp_all add: attempt_once_def MAX_RETRIES_def)
  next
    case (Inr t)
    with Pair show ?thesis by (simp add: attempt_once_def)
  qed
qed

lemma attempt_once_returns:
  assumes "\<not> non_quota_failure (fst (try_generate cfg gemini prompt v))"
  shows "\<exists>r. attempt_once cfg gemini prompt attempt v
               = (Some r, snd (try_generate cfg gemini prompt v))"
proof (cases "try_generate cfg gemini prompt v")
  case (Pair r v1)
  show ?thesis
  proof (cases r)
    case (Inl e)
    with Pair assms show ?thesis
      by (cases e) (simp_all add: attempt_once_def non_quota_failure_def)
  next
    case (Inr t)
    with Pair show ?thesis by (simp add: attempt_once_def)
  qed
qed

lemma generate_sleeps_exact:
  "sleeps (snd (generate_response_with_retry cfg gemini prompt w))
     = sleeps w @
       (if truthy (GENAI_API_KEY cfg) \<and>
           non_quota_failure (fst (try_generate cfg gemini prompt w))
        then if non_quota_failure (fst (try_generate cfg gemini prompt
                  (time_sleep (2 ^ 0) (snd (try_generate cfg gemini prompt w)))))
             then [2 ^ 0, 2 ^ 1] else [2 ^ 0]
        else [])"
proof (cases "truthy (GENAI_API_KEY cfg)")
  case False
  then show ?thesis by (simp add: generate_response_with_retry_def)
next
  case True
  note unfold = generate_with_key [OF True]
  let ?v0 = "snd (try_generate cfg gemini prompt w)"
  have s0: "sleeps ?v0 = sleeps w" by (rule try_generate_sleeps)
  show ?thesis
  proof (cases "non_quota_failure (fst (try_generate cfg gemini prompt w))")
    case False
    from attempt_once_returns [OF False, of 0]
    obtain r where "attempt_once cfg gemini prompt 0 w = (Some r, ?v0)" by blast
    with False s0 show ?thesis by (simp add: unfold)
  next
    case f0: True
    let ?w1 = "time_sleep (2 ^ 0) ?v0"
    let ?v1 = "snd (try_generate cfg gemini prompt ?w1)"
    have a0: "attempt_once cfg gemini prompt 0 w = (None, ?w1)"
      using attempt_once_retries [OF f0, of 0] by simp
    have s1: "sleeps ?v1 = sleeps w @ [1]"
      using try_generate_sleeps [of cfg gemini prompt ?w1] s0 by (simp add: time_sleep_def)
    show ?thesis
    proof (cases "non_quota_failure (fst (try_generate cfg gemini prompt ?w1))")
      case False
      from attempt_once_returns [OF False, of 1]
      obtain r where "attempt_once cfg gemini prompt 1 ?w1 = (Some r, ?v1)" by blast
      with True f0 False a0 s1 show ?thesis by (simp add: unfold)
    next
      case f1: True
      let ?w2 = "time_sleep (2 ^ 1) ?v1"
      let ?v2 = "snd (try_generate cfg gemini prompt ?w2)"
      have a1: "attempt_once cfg gemini prompt 1 ?w1 = (None, ?w2)"
        using attempt_once_retries [OF f1, of 1] by simp
      have s2: "sleeps ?v2 = sleeps w @ [1, 2]"
        using try_generate_sleeps [of cfg gemini prompt ?w2] s1 by (simp add: time_sleep_def)
      have "\<not> (2::nat) < 2" by simp
      from attempt_once_last [OF this]
      obtain r where "attempt_once cfg gemini prompt 2 ?w2 = (Some r, ?v2)" by blast
      with True f0 f1 a0 a1 s2 show ?thesis by (simp add: unfold)
    qed
  qed
qed

section \<open>Claims about the completion client\<close>

text \<open>
  Claim C1. For every prompt, configuration, provider and state,
  \<open>generate_response_with_retry\<close> returns a string, and the string is not empty: every
  exception of the \<open>try\<close> block is caught by one of the three \<open>except\<close> clauses, the
  loop is bounded, and a model text is returned only after the test of line 63. When no
  API key is configured, the result is the fixed missing-key string and the state is
  unchanged: no model call and no sleep.
\<close>

theorem generate_response_nonempty:
  "fst (generate_response_with_retry cfg gemini prompt w) \<noteq> [] \<and>
   (\<not> truthy (GENAI_API_KEY cfg) \<longrightarrow>
      generate_response_with_retry cfg gemini prompt w = (MSG_NO_API_KEY, w))"
  by (simp add: generate_response_with_retry_def retry_loop_nonempty fixed_replies_nonempty)

theorem generate_response_nonempty_witness:
  "\<not> truthy (GENAI_API_KEY cfg_no_key) \<and>
   fst (generate_response_with_retry cfg_no_key (always (Inl APIError)) hello world0) \<noteq> [] \<and>
   generate_response_with_retry cfg_no_key (always (Inl APIError)) hello world0
     = (MSG_NO_API_KEY, world0)"
  using generate_response_nonempty [of cfg_no_key "always (Inl APIError)" hello world0]
  by (simp add: cfg_no_key_def truthy_def fixed_replies_nonempty)

text \<open>
  Claim C3. With a key configured and the model bound, if the first model call raises
  the quota-exhaustion error, the function returns the daily-limit string, and the only
  change of state is that one call was made: no sleep, no second call.
\<close>

theorem quota_exhausted_no_retry:
  assumes "model_bound cfg"
    and "gemini (length (model_calls w)) prompt = Inl ResourceExhaustedError"
  shows "generate_response_with_retry cfg gemini prompt w
           = (MSG_DAILY_LIMIT, w\<lparr>model_calls := model_calls w @ [prompt]\<rparr>)"
proof -
  have key: "truthy (GENAI_API_KEY cfg)"
    using assms(1) by (simp add: model_bound_def)
  have "attempt_once cfg gemini prompt 0 w
          = (Some MSG_DAILY_LIMIT, w\<lparr>model_calls := model_calls w @ [prompt]\<rparr>)"
    using assms by (simp add: attempt_once_def try_generate_bound)
  then show ?thesis
    by (simp add: generate_with_key [OF key])
qed

theorem quota_exhausted_no_retry_witness:
  "model_bound cfg_ok \<and>
   always (Inl ResourceExhaustedError) (length (model_calls world0)) hello
     = Inl ResourceExhaustedError \<and>
   generate_response_with_retry cfg_ok (always (Inl ResourceExhaustedError)) hello world0
     = (MSG_DAILY_LIMIT, world0\<lparr>model_calls := [hello]\<rparr>) \<and>
   sleeps (world0\<lparr>model_calls := [hello]\<rparr>) = []"
proof -
  have b: "model_bound cfg_ok"
    by (simp add: model_bound_def cfg_ok_def truthy_def ascii_def)
  have q: "always (Inl ResourceExhaustedError) (length (model_calls world0)) hello
             = Inl ResourceExhaustedError"
    by (simp add: always_def)
  show ?thesis
    using b q
      quota_exhausted_no_retry [of cfg_ok "always (Inl ResourceExhaustedError)" world0 hello]
    by (simp add: world0_def)
qed

text \<open>
  Claim C4. With a key configured and the model bound, if every model call raises the
  provider's API error, the function makes exactly three calls, sleeps 1 second after the
  first failure and 2 seconds after the second, and returns the string for known API
  errors.
\<close>

theorem api_error_three_calls:
  assumes "model_bound cfg"
    and "\<forall>k. gemini k prompt = Inl APIError"
  shows "generate_response_with_retry cfg gemini prompt w
           = (MSG_API_ERROR,
              w\<lparr>model_calls := model_calls w @ [prompt, prompt, prompt],
                sleeps := sleeps w @ [1, 2]\<rparr>)"
proof -
  have key: "truthy (GENAI_API_KEY cfg)"
    using assms(1) by (simp add: model_bound_def)
  have step: "try_generate cfg gemini prompt v
                = (Inl APIError, v\<lparr>model_calls := model_calls v @ [prompt]\<rparr>)" for v
    using assms by (simp add: try_generate_bound)
  show ?thesis
    by (simp add: generate_with_key [OF key] attempt_once_def step MAX_RETRIES_def
        time_sleep_def)
qed

theorem api_error_three_calls_witness:
  "model_bound cfg_ok \<and> (\<forall>k. always (Inl APIError) k hello = Inl APIError) \<and>
   generate_response_with_retry cfg_ok (always (Inl APIError)) hello world0
     = (MSG_API_ERROR, world0\<lparr>model_calls := [hello, hello, hello], sleeps := [1, 2]\<rparr>)"
proof -
  have b: "model_bound cfg_ok"
    by (simp add: model_bound_def cfg_ok_def truthy_def ascii_def)
  have q: "\<forall>k. always (Inl APIError) k hello = Inl APIError"
    by (simp add: always_def)
  show ?thesis
    using b q api_error_three_calls [of cfg_ok "always (Inl APIError)" hello world0]
    by (simp add: world0_def)
qed

text \<open>
  Claim C5, as stated: after a non-quota failure the function waits \<open>2 ^ attempt\<close> seconds
  for attempts 0, 1 and 2, so that the backoff adds up to 7 seconds. It does not: the guard
  \<open>attempt < MAX_RETRIES - 1\<close> of lines 73 and 81 lets only attempts 0 and 1 sleep. In
  the run where all three attempts fail, the sleeps are 1 and 2 seconds, there is no sleep
  of 4 seconds, and the total is 3 seconds.
\<close>

theorem backoff_seven_seconds_counterexample:
  "sleeps (snd (generate_response_with_retry cfg_ok (always (Inl APIError)) hello world0))
     = [1, 2] \<and>
   4 \<notin> set (sleeps (snd (generate_response_with_retry cfg_ok (always (Inl APIError)) hello world0))) \<and>
   sum_list (sleeps (snd (generate_response_with_retry cfg_ok (always (Inl APIError)) hello world0)))
     \<noteq> 1 + 2 + 4"
proof -
  have key: "truthy (GENAI_API_KEY cfg_ok)"
    by (simp add: cfg_ok_def truthy_def ascii_def)
  have bound: "model_bound cfg_ok"
    by (simp add: model_bound_def cfg_ok_def truthy_def ascii_def)
  have "sleeps (snd (generate_response_with_retry cfg_ok (always (Inl APIError)) hello world0))
          = [1, 2]"
    by (simp add: generate_with_key [OF key] attempt_once_def try_generate_def bound
        always_def MAX_RETRIES_def time_sleep_def world0_def)
  then show ?thesis by simp
qed

text \<open>
  Claim C5, amended. After a non-quota failure of attempt 0 or attempt 1 the function
  waits \<open>2 ^ attempt\<close> seconds (1 second, then 2 seconds) and goes on to the next try;
  attempt 2 returns and is followed by no wait. So the waits of one request are exactly:
  none when the first try does not fail that way (or no key is configured), 1 second when
  only the first does, 1 and 2 seconds when the first two do; the backoff of one request
  is at most 3 seconds.
\<close>

theorem backoff_one_then_two_seconds:
  "(non_quota_failure (fst (try_generate cfg gemini prompt v)) \<longrightarrow>
      (attempt < 2 \<longrightarrow>
         attempt_once cfg gemini prompt attempt v
           = (None, time_sleep (2 ^ attempt) (snd (try_generate cfg gemini prompt v)))) \<and>
      (attempt = 2 \<longrightarrow>
         fst (attempt_once cfg gemini prompt attempt v) \<noteq> None \<and>
         sleeps (snd (attempt_once cfg gemini prompt attempt v)) = sleeps v)) \<and>
   sleeps (snd (generate_response_with_retry cfg gemini prompt w))
     = sleeps w @
       (if truthy (GENAI_API_KEY cfg) \<and>
           non_quota_failure (fst (try_generate cfg gemini prompt w))
        then if non_quota_failure (fst (try_generate cfg gemini prompt
                  (time_sleep (2 ^ 0) (snd (try_generate cfg gemini prompt w)))))
             then [2 ^ 0, 2 ^ 1] else [2 ^ 0]
        else []) \<and>
   sum_list (sleeps (snd (generate_response_with_retry cfg gemini prompt w)))
     \<le> sum_list (sleeps w) + 3"
proof (intro conjI impI)
  assume "non_quota_failure (fst (try_generate cfg gemini prompt v))" and "attempt < 2"
  then show "attempt_once cfg gemini prompt attempt v
               = (None, time_sleep (2 ^ attempt) (snd (try_generate cfg gemini prompt v)))"
    by (rule attempt_once_retries)
next
  assume last: "attempt = 2"
  then have "\<not> attempt < 2" by simp
  from attempt_once_last [OF this]
  obtain r where r: "attempt_once cfg gemini prompt attempt v
                       = (Some r, snd (try_generate cfg gemini prompt v))"
    by blast
  then show "fst (attempt_once cfg gemini prompt attempt v) \<noteq> None" by simp
  from r show "sleeps (snd (attempt_once cfg gemini prompt attempt v)) = sleeps v"
    by (simp add: try_generate_sleeps)
next
  show "sleeps (snd (generate_response_with_retry cfg gemini prompt w))
     = sleeps w @
       (if truthy (GENAI_API_KEY cfg) \<and>
           non_quota_failure (fst (try_generate cfg gemini prompt w))
        then if non_quota_failure (fst (try_generate cfg gemini prompt
                  (time_sleep (2 ^ 0) (snd (try_generate cfg gemini prompt w)))))
             then [2 ^ 0, 2 ^ 1] else [2 ^ 0]
        else [])"
    by (rule generate_sleeps_exact)
next
  show "sum_list (sleeps (snd (generate_response_with_retry cfg gemini prompt w)))
          \<le> sum_list (sleeps w) + 3"
    by (simp add: generate_sleeps_exact)
qed

theorem backoff_one_then_two_seconds_witness:
  "non_quota_failure (fst (try_generate cfg_ok (failing_first 1) hello world0)) \<and>
   attempt_once cfg_ok (failing_first 1) hello 0 world0
     = (None, world0\<lparr>model_calls := [hello], sleeps := [1]\<rparr>) \<and>
   attempt_once cfg_ok (failing_first 1) hello 1 world0
     = (None, world0\<lparr>model_calls := [hello], sleeps := [2]\<rparr>) \<and>
   fst (attempt_once cfg_ok (failing_first 1) hello 2 world0) \<noteq> None \<and>
   sleeps (snd (attempt_once cfg_ok (failing_first 1) hello 2 world0)) = [] \<and>
   sleeps (snd (generate_response_with_retry cfg_ok (failing_first 1) hello world0)) = [1] \<and>
   sleeps (snd (generate_response_with_retry cfg_ok (failing_first 2) hello world0)) = [1, 2]"
proof -
  have b: "model_bound cfg_ok"
    by (simp add: model_bound_def cfg_ok_def truthy_def ascii_def)
  then have key: "truthy (GENAI_API_KEY cfg_ok)"
    by (simp add: model_bound_def)
  have t1: "try_generate cfg_ok (failing_first 1) hello world0
              = (Inl APIError, world0\<lparr>model_calls := [hello]\<rparr>)"
    by (simp add: try_generate_def b failing_first_def world0_def)
  have t1': "try_generate cfg_ok (failing_first 1) hello
               (time_sleep (Suc 0) (world0\<lparr>model_calls := [hello]\<rparr>))
              = (Inr (ascii ''hi''),
                 time_sleep (Suc 0) (world0\<lparr>model_calls := [hello, hello]\<rparr>))"
    by (simp add: try_generate_def b failing_first_def world0_def time_sleep_def ascii_def)
  have t2: "try_generate cfg_ok (failing_first 2) hello world0
              = (Inl APIError, world0\<lparr>model_calls := [hello]\<rparr>)"
    by (simp add: try_generate_def b failing_first_def world0_def)
  have t2': "try_generate cfg_ok (failing_first 2) hello
               (time_sleep (Suc 0) (world0\<lparr>model_calls := [hello]\<rparr>))
              = (Inl APIError,
                 time_sleep (Suc 0) (world0\<lparr>model_calls := [hello, hello]\<rparr>))"
    by (simp add: try_generate_def b failing_first_def world0_def time_sleep_def)
  have f: "non_quota_failure (fst (try_generate cfg_ok (failing_first 1) hello world0))"
    using t1 by (simp add: non_quota_failure_def)
  show ?thesis
    using f key t1 t1' t2 t2'
      backoff_one_then_two_seconds [of cfg_ok "failing_first 1" hello world0 0 world0]
      backoff_one_then_two_seconds [of cfg_ok "failing_first 1" hello world0 1 world0]
      backoff_one_then_two_seconds [of cfg_ok "failing_first 1" hello world0 2 world0]
      backoff_one_then_two_seconds [of cfg_ok "failing_first 2" hello world0 2 world0]
    by (simp add: non_quota_failure_def time_sleep_def world0_def)
qed

text \<open>
  Claim C6. A model call that returns an empty text and a model call that raises a
  generic exception are handled alike. If two providers differ only in that, at some
  calls, one returns an empty text where the other raises a generic exception, then the
  function returns the same string and leaves the same state (the same calls, the same
  sleeps) with either. And when every call returns an empty text, the function makes
  three calls, sleeps 1 and 2 seconds, and returns the unexpected-error string, the one
  that three generic exceptions yield.
\<close>

theorem empty_text_handled_as_exception:
  "((\<forall>k. alike_for_retry (g1 k prompt) (g2 k prompt)) \<longrightarrow>
      generate_response_with_retry cfg g1 prompt w
        = generate_response_with_retry cfg g2 prompt w) \<and>
   (model_bound cfg \<and> (\<forall>k. empty_or_generic (g1 k prompt)) \<longrightarrow>
      generate_response_with_retry cfg g1 prompt w
        = (MSG_UNEXPECTED_ERROR,
           w\<lparr>model_calls := model_calls w @ [prompt, prompt, prompt],
             sleeps := sleeps w @ [1, 2]\<rparr>))"
proof (intro conjI impI)
  assume "\<forall>k. alike_for_retry (g1 k prompt) (g2 k prompt)"
  then show "generate_response_with_retry cfg g1 prompt w
               = generate_response_with_retry cfg g2 prompt w"
    by (simp add: generate_response_with_retry_def retry_loop_alike)
next
  assume a: "model_bound cfg \<and> (\<forall>k. empty_or_generic (g1 k prompt))"
  then have key: "truthy (GENAI_API_KEY cfg)"
    by (simp add: model_bound_def)
  have step: "try_generate cfg g1 prompt v
                = (Inl OtherException, v\<lparr>model_calls := model_calls v @ [prompt]\<rparr>)" for v
  proof -
    from a have "g1 (length (model_calls v)) prompt = Inr [] \<or>
        g1 (length (model_calls v)) prompt = Inl OtherException"
      by (simp add: empty_or_generic_def)
    moreover from a have "model_bound cfg" by simp
    ultimately show ?thesis
      by (auto simp: try_generate_def)
  qed
  show "generate_response_with_retry cfg g1 prompt w
          = (MSG_UNEXPECTED_ERROR,
             w\<lparr>model_calls := model_calls w @ [prompt, prompt, prompt],
               sleeps := sleeps w @ [1, 2]\<rparr>)"
    by (simp add: generate_with_key [OF key] attempt_once_def step MAX_RETRIES_def
        time_sleep_def)
qed

theorem empty_text_handled_as_exception_witness:
  "(\<forall>k. alike_for_retry (always (Inr []) k hello) (always (Inl OtherException) k hello)) \<and>
   model_bound cfg_ok \<and> (\<forall>k. empty_or_generic (always (Inr []) k hello)) \<and>
   generate_response_with_retry cfg_ok (always (Inr [])) hello world0
     = generate_response_with_retry cfg_ok (always (Inl OtherException)) hello world0 \<and>
   generate_response_with_retry cfg_ok (always (Inr [])) hello world0
     = (MSG_UNEXPECTED_ERROR,
        world0\<lparr>model_calls := [hello, hello, hello], sleeps := [1, 2]\<rparr>)"
proof -
  have r: "\<forall>k. alike_for_retry (always (Inr []) k hello) (always (Inl OtherException) k hello)"
    by (simp add: alike_for_retry_def empty_or_generic_def always_def)
  have b: "model_bound cfg_ok"
    by (simp add: model_bound_def cfg_ok_def truthy_def ascii_def)
  have e: "\<forall>k. empty_or_generic (always (Inr []) k hello)"
    by (simp add: empty_or_generic_def always_def)
  show ?thesis
    using r b e
      empty_text_handled_as_exception
        [of "always (Inr [])" hello "always (Inl OtherException)" cfg_ok world0]
    by (auto simp: world0_def)
qed

section \<open>Properties of the handlers\<close>

lemma codes_distinct:
  "LANG_AMHARIC \<noteq> LANG_ENGLISH" "ACTION_ABOUT \<noteq> LANG_AMHARIC" "ACTION_ABOUT \<noteq> LANG_ENGLISH"
  by (simp_all add: LANG_AMHARIC_def LANG_ENGLISH_def ACTION_ABOUT_def ascii_def)

lemma try_generate_user_data:
  "user_data (snd (try_generate cfg gemini prompt w)) = user_data w"
  by (simp add: try_generate_def Let_def split: sum.splits)

lemma attempt_once_user_data:
  "user_data (snd (attempt_once cfg gemini prompt attempt w)) = user_data w"
proof (cases "try_generate cfg gemini prompt w")
  case (Pair r w1)
  then have same: "user_data w1 = user_data w"
    using try_generate_user_data [of cfg gemini prompt w] by simp
  show ?thesis
  proof (cases r)
    case (Inl e)
    with Pair same show ?thesis
      by (cases e) (simp_all add: attempt_once_def time_sleep_def)
  next
    case (Inr t)
    with Pair same show ?thesis by (simp add: attempt_once_def)
  qed
qed

lemma retry_loop_user_data:
  "user_data (snd (retry_loop cfg gemini prompt attempts w)) = user_data w"
proof (induction attempts arbitrary: w)
  case Nil
  show ?case by simp
next
  case (Cons attempt rest)
  obtain res w' where step: "attempt_once cfg gemini prompt attempt w = (res, w')"
    by (cases "attempt_once cfg gemini prompt attempt w")
  then have same: "user_data w' = user_data w"
    using attempt_once_user_data [of cfg gemini prompt attempt w] by simp
  show ?case
  proof (cases res)
    case None
    with step same Cons.IH [of w'] show ?thesis by simp
  next
    case (Some r)
    with step same show ?thesis by simp
  qed
qed

lemma generate_response_user_data:
  "user_data (snd (generate_response_with_retry cfg gemini prompt w)) = user_data w"
  by (simp add: generate_response_with_retry_def retry_loop_user_data)

lemma start_user_data: "user_data (start msg w) = user_data w"
  by (simp add: start_def emit_def)

lemma handle_message_user_data: "user_data (handle_message cfg gemini msg w) = user_data w"
proof -
  let ?w1 = "emit (SendChatAction (msg_chat_id msg) (ascii ''typing'')) w"
  have "user_data (snd (generate_response_with_retry cfg gemini (msg_text msg) ?w1))
          = user_data ?w1"
    by (rule generate_response_user_data)
  then show ?thesis
    by (auto simp: handle_message_def Let_def emit_def split: prod.splits)
qed

lemma handle_callback_lang:
  "user_data (handle_callback query w) uid LANG_KEY = user_data w uid LANG_KEY \<or>
   user_data (handle_callback query w) uid LANG_KEY = Some LANG_AMHARIC \<or>
   user_data (handle_callback query w) uid LANG_KEY = Some LANG_ENGLISH"
  by (auto simp: handle_callback_def Let_def emit_def set_user_data_def
      split: option.splits prod.splits)

lemma process_update_lang:
  "user_data (process_update cfg gemini u w) uid LANG_KEY = user_data w uid LANG_KEY \<or>
   user_data (process_update cfg gemini u w) uid LANG_KEY = Some LANG_AMHARIC \<or>
   user_data (process_update cfg gemini u w) uid LANG_KEY = Some LANG_ENGLISH"
proof (cases u)
  case (Command c msg)
  then show ?thesis by (simp add: start_user_data)
next
  case (Callback query)
  then show ?thesis using handle_callback_lang [of query w uid] by simp
next
  case (TextMessage msg)
  then show ?thesis by (simp add: handle_message_user_data)
next
  case Unhandled
  then show ?thesis by simp
qed

lemma process_updates_lang_valid:
  assumes "user_data w uid LANG_KEY \<in> {None, Some LANG_AMHARIC, Some LANG_ENGLISH}"
  shows "user_data (process_updates cfg gemini updates w) uid LANG_KEY
           \<in> {None, Some LANG_AMHARIC, Some LANG_ENGLISH}"
  using assms
proof (induction updates arbitrary: w)
  case Nil
  then show ?case by (simp add: process_updates_def)
next
  case (Cons u rest)
  have "user_data (process_update cfg gemini u w) uid LANG_KEY
          \<in> {None, Some LANG_AMHARIC, Some LANG_ENGLISH}"
    using Cons.prems process_update_lang [of cfg gemini u w uid] by auto
  then have "user_data (process_updates cfg gemini rest (process_update cfg gemini u w)) uid LANG_KEY
          \<in> {None, Some LANG_AMHARIC, Some LANG_ENGLISH}"
    by (rule Cons.IH)
  then show ?case by (simp add: process_updates_def)
qed

lemma about_texts_distinct: "ABOUT_TEXT_AM \<noteq> ABOUT_TEXT_EN"
  by (simp add: ABOUT_TEXT_AM_def ABOUT_TEXT_EN_def ascii_def)

section \<open>Claims about the handlers\<close>

text \<open>
  Claim C7. A callback query whose data is the About action is answered and then followed
  by one \<open>send_message\<close> to the chat of the query, and by nothing else (in particular by
  no \<open>edit_message_text\<close>). The text sent is the Amharic description when the session
  language of the user is unset or Amharic, and the English description, a different text,
  when it is English. The session is not changed.
\<close>

theorem about_sends_description:
  assumes "cq_data query = Some ACTION_ABOUT"
  shows "(user_data w (cq_user_id query) LANG_KEY \<in> {None, Some LANG_AMHARIC} \<longrightarrow>
            handle_callback query w
              = w\<lparr>outbox := outbox w @ [AnswerCallbackQuery (cq_id query),
                                          SendMessage (cq_chat_id query) ABOUT_TEXT_AM]\<rparr>) \<and>
         (user_data w (cq_user_id query) LANG_KEY = Some LANG_ENGLISH \<longrightarrow>
            handle_callback query w
              = w\<lparr>outbox := outbox w @ [AnswerCallbackQuery (cq_id query),
                                          SendMessage (cq_chat_id query) ABOUT_TEXT_EN]\<rparr>) \<and>
         ABOUT_TEXT_AM \<noteq> ABOUT_TEXT_EN"
  using assms
  by (auto simp: handle_callback_def Let_def codes_distinct codes_distinct [symmetric]
      dict_get_def about_texts_distinct emit_def)

theorem about_sends_description_witness:
  "cq_data (tap (Some ACTION_ABOUT)) = Some ACTION_ABOUT \<and>
   user_data world0 (cq_user_id (tap (Some ACTION_ABOUT))) LANG_KEY = None \<and>
   handle_callback (tap (Some ACTION_ABOUT)) world0
     = world0\<lparr>outbox := [AnswerCallbackQuery 1, SendMessage 42 ABOUT_TEXT_AM]\<rparr> \<and>
   user_data (handle_callback (tap (Some LANG_ENGLISH)) world0)
     (cq_user_id (tap (Some ACTION_ABOUT))) LANG_KEY = Some LANG_ENGLISH \<and>
   outbox (handle_callback (tap (Some ACTION_ABOUT))
            (handle_callback (tap (Some LANG_ENGLISH)) world0))
     = outbox (handle_callback (tap (Some LANG_ENGLISH)) world0)
         @ [AnswerCallbackQuery 1, SendMessage 42 ABOUT_TEXT_EN]"
proof -
  let ?en = "handle_callback (tap (Some LANG_ENGLISH)) world0"
  have d: "cq_data (tap (Some ACTION_ABOUT)) = Some ACTION_ABOUT"
    by (simp add: tap_def)
  have unset: "user_data world0 (cq_user_id (tap (Some ACTION_ABOUT))) LANG_KEY = None"
    by (simp add: world0_def)
  have chosen: "user_data ?en (cq_user_id (tap (Some ACTION_ABOUT))) LANG_KEY = Some LANG_ENGLISH"
    by (simp add: handle_callback_def Let_def tap_def codes_distinct set_user_data_def
        emit_def world0_def)
  show ?thesis
    using d unset chosen
      about_sends_description [OF d, of world0]
      about_sends_description [OF d, of ?en]
    by (simp add: tap_def world0_def)
qed

text \<open>
  Claim C8. Handling \<open>/start\<close> in any state leaves every session dictionary as it was, so
  a stored language is neither erased nor overwritten; the only effect is one reply
  carrying the two-button language picker. The dispatcher runs \<open>start\<close> for this command.
\<close>

theorem start_keeps_language:
  "process_update cfg gemini (Command (ascii ''start'') msg) w = start msg w \<and>
   user_data (start msg w) = user_data w \<and>
   start msg w
     = w\<lparr>outbox := outbox w @
          [ReplyText (msg_chat_id msg) MSG_SELECT_LANGUAGE
             (Some [[(BTN_AMHARIC, LANG_AMHARIC)], [(BTN_ENGLISH, LANG_ENGLISH)]])]\<rparr>"
  by (simp add: start_def emit_def)

text \<open>
  Claim C9. Starting from a fresh process and after any sequence of handled updates, the
  language attribute of every session is either absent or one of the two codes \<open>AM\<close> and
  \<open>EN\<close>; read with its default, as line 122 does, it is always one of the two codes.
\<close>

theorem session_language_valid:
  "user_data (process_updates cfg gemini updates world0) uid LANG_KEY
     \<in> {None, Some LANG_AMHARIC, Some LANG_ENGLISH} \<and>
   dict_get (user_data (process_updates cfg gemini updates world0) uid) LANG_KEY LANG_AMHARIC
     \<in> {LANG_AMHARIC, LANG_ENGLISH}"
proof -
  have "user_data world0 uid LANG_KEY \<in> {None, Some LANG_AMHARIC, Some LANG_ENGLISH}"
    by (simp add: world0_def)
  then have "user_data (process_updates cfg gemini updates world0) uid LANG_KEY
               \<in> {None, Some LANG_AMHARIC, Some LANG_ENGLISH}"
    by (rule process_updates_lang_valid)
  then show ?thesis by (auto simp: dict_get_def)
qed

text \<open>
  Claim C10. A callback query whose data is neither of the two language codes nor the
  About action (or that carries no data) is answered, and that is all: the state after it
  differs from the state before only by the \<open>answer\<close> call, so no session is changed and
  no message is sent or edited.
\<close>

theorem other_callback_only_answered:
  assumes "cq_data query \<notin> {Some LANG_AMHARIC, Some LANG_ENGLISH, Some ACTION_ABOUT}"
  shows "handle_callback query w = w\<lparr>outbox := outbox w @ [AnswerCallbackQuery (cq_id query)]\<rparr>"
  using assms
  by (auto simp: handle_callback_def Let_def emit_def split: option.splits)

theorem other_callback_only_answered_witness:
  "cq_data (tap (Some (ascii ''HELP''))) \<notin> {Some LANG_AMHARIC, Some LANG_ENGLISH, Some ACTION_ABOUT} \<and>
   handle_callback (tap (Some (ascii ''HELP''))) world0
     = world0\<lparr>outbox := [AnswerCallbackQuery 1]\<rparr>"
proof -
  have d: "cq_data (tap (Some (ascii ''HELP'')))
             \<notin> {Some LANG_AMHARIC, Some LANG_ENGLISH, Some ACTION_ABOUT}"
    by (simp add: tap_def LANG_AMHARIC_def LANG_ENGLISH_def ACTION_ABOUT_def ascii_def)
  show ?thesis
    using d other_callback_only_answered [OF d, of world0]
    by (simp add: tap_def world0_def)
qed

section \<open>Claims about the webhook\<close>

text \<open>
  Claim C2, as stated: every request body, also one that is not valid JSON, is answered
  with 200 and \<open>ok\<close>. It is not: with a bot token configured, a body that is not JSON
  makes \<open>get_json\<close> raise inside the view, which has no handler for it, and the answer is
  a 400 response.
\<close>

theorem webhook_malformed_body_counterexample:
  "post_telegram cfg_ok (always (Inl APIError)) NotJSON world0 = ErrorPage 400 \<and>
   post_telegram cfg_ok (always (Inl APIError)) NotJSON world0 \<noteq> Body 200 (ascii ''ok'')"
  by (simp add: post_telegram_def webhook_def dispatcher_set_def cfg_ok_def truthy_def
      get_json_def respond_def ascii_def)

text \<open>
  Claim C2, amended. \<open>POST /telegram\<close> is answered with 200 and \<open>ok\<close> for every body, valid
  or not, when no bot token is configured: nothing is decoded or dispatched then, and the
  state is unchanged. With a bot token configured, a body that is not valid JSON is
  answered with status 400 and leaves the state unchanged.
\<close>

theorem webhook_ok_without_dispatcher:
  "(\<not> dispatcher_set cfg \<longrightarrow>
      post_telegram cfg gemini b w = Body 200 (ascii ''ok'') \<and>
      webhook cfg gemini \<lparr>req_method = ascii ''POST'', req_body = b\<rparr> w
        = (Inr (ascii ''ok''), w)) \<and>
   (dispatcher_set cfg \<longrightarrow>
      post_telegram cfg gemini NotJSON w = ErrorPage 400 \<and>
      webhook cfg gemini \<lparr>req_method = ascii ''POST'', req_body = NotJSON\<rparr> w
        = (Inl BadRequest, w))"
  by (simp add: post_telegram_def webhook_def get_json_def respond_def)

theorem webhook_ok_without_dispatcher_witness:
  "\<not> dispatcher_set cfg_no_token \<and>
   post_telegram cfg_no_token (always (Inl APIError)) NotJSON world0 = Body 200 (ascii ''ok'') \<and>
   post_telegram cfg_no_token (always (Inl APIError)) (JSON (Decodes (Callback (tap None)))) world0
     = Body 200 (ascii ''ok'') \<and>
   dispatcher_set cfg_ok \<and>
   post_telegram cfg_ok (always (Inl APIError)) NotJSON world0 = ErrorPage 400"
proof -
  have n: "\<not> dispatcher_set cfg_no_token"
    by (simp add: dispatcher_set_def cfg_no_token_def truthy_def)
  have t: "dispatcher_set cfg_ok"
    by (simp add: dispatcher_set_def cfg_ok_def truthy_def ascii_def)
  show ?thesis
    using n t
      webhook_ok_without_dispatcher [of cfg_no_token "always (Inl APIError)" NotJSON world0]
      webhook_ok_without_dispatcher
        [of cfg_no_token "always (Inl APIError)" "JSON (Decodes (Callback (tap None)))" world0]
      webhook_ok_without_dispatcher [of cfg_ok "always (Inl APIError)" NotJSON world0]
    by simp
qed

text \<open>
  With a bot token configured, a body that decodes to an update is dispatched and then
  answered with status 500: the \<open>await\<close> of line 182 raises before \<open>return 'ok'\<close>.
\<close>

lemma webhook_await_raises:
  "dispatcher_set cfg \<Longrightarrow> post_telegram cfg gemini (JSON (Decodes u)) w = ErrorPage 500"
  by (simp add: post_telegram_def webhook_def get_json_def de_json_def respond_def
      await_process_update_def)
end
